theory Spec2Isabelle
  imports Complex_Main
begin

section \<open>Data model\<close>

text \<open>
  The program of \<^verbatim>\<open>remoteOps/defs.py\<close> works on circuit objects of the host
  library. A circuit holds its quantum registers, its classical registers and the
  ordered instruction list \<^verbatim>\<open>data\<close>; an entry of \<^verbatim>\<open>data\<close> is the triple
  \<^verbatim>\<open>(op[0], op[1], op[2])\<close> of an instruction object, its qubit operands and its
  classical operands. A register is identified by its kind, size and name (the host
  library compares registers by these), a bit by its register and index.
\<close>

datatype regkind = QReg | CReg

datatype register = Register (kind: regkind) (rsize: nat) (rname: string)

datatype bit = Bit (breg: register) (bidx: nat)

datatype error = CircuitError | KeyError | IndexError | TypeError | UndefinedInstruction

record instruction =
  name :: string
  num_qubits :: nat
  num_clbits :: nat
  params :: "real list"
  condition :: "(bit \<times> nat) option"

type_synonym item = "instruction \<times> bit list \<times> bit list"

record circuit =
  qregs :: "register list"
  cregs :: "register list"
  data :: "item list"

text \<open>
  Python values are dynamically typed. A register reference (\<^verbatim>\<open>epr_creg\<close>,
  \<^verbatim>\<open>epr_qreg\<close>) is \<^verbatim>\<open>None\<close>, a name string or a register handle. A call
  argument is \<^verbatim>\<open>None\<close>, a number, a string, a bit, or the list of classical
  operands \<^verbatim>\<open>op[2]\<close>.
\<close>

datatype pyref = RNone | RName string | RReg register

datatype arg = ANone | ANum real | AStr string | ABit bit | ACargs "bit list"

definition and_then :: "error + 'a \<Rightarrow> ('a \<Rightarrow> error + 'b) \<Rightarrow> error + 'b" where
  "and_then m f = (case m of Inl e \<Rightarrow> Inl e | Inr x \<Rightarrow> f x)"

section \<open>The host library\<close>

text \<open>
  What the program uses of the host library: \<^verbatim>\<open>has_register\<close> looks a register
  up in the list of its own kind; \<^verbatim>\<open>add_register\<close> refuses a name that a register
  of the circuit already has; \<^verbatim>\<open>append\<close> accepts an instruction when the number of
  operands is the instruction's arity, the qubit operands are pairwise distinct
  qubits of the circuit and the classical operands are classical bits of the
  circuit, and raises a circuit error otherwise. An operand that is not a bit
  (\<^verbatim>\<open>None\<close>, a float, a string) is refused by \<^verbatim>\<open>append\<close>.
  Numeric parameters are floats, modelled as reals. Register names are taken to be
  names the library accepts. \<^verbatim>\<open>circ.copy()\<close> copies the registers and the
  instruction list, slicing and iterating a circuit read its instruction list, and
  assigning to \<^verbatim>\<open>circ.data\<close> stores the list.
\<close>

definition has_register :: "circuit \<Rightarrow> register \<Rightarrow> bool" where
  "has_register circ r =
     ((kind r = QReg \<and> r \<in> set (qregs circ)) \<or> (kind r = CReg \<and> r \<in> set (cregs circ)))"

definition add_register :: "circuit \<Rightarrow> register \<Rightarrow> error + circuit" where
  "add_register circ r =
     (if rname r \<in> set (map rname (qregs circ @ cregs circ)) then Inl CircuitError
      else if kind r = QReg then Inr (circ\<lparr>qregs := qregs circ @ [r]\<rparr>)
      else Inr (circ\<lparr>cregs := cregs circ @ [r]\<rparr>))"

definition valid_qubit :: "circuit \<Rightarrow> bit \<Rightarrow> bool" where
  "valid_qubit circ b =
     (kind (breg b) = QReg \<and> breg b \<in> set (qregs circ) \<and> bidx b < rsize (breg b))"

definition valid_clbit :: "circuit \<Rightarrow> bit \<Rightarrow> bool" where
  "valid_clbit circ b =
     (kind (breg b) = CReg \<and> breg b \<in> set (cregs circ) \<and> bidx b < rsize (breg b))"

fun as_bits :: "arg list \<Rightarrow> error + bit list" where
  "as_bits [] = Inr []"
| "as_bits (ABit b # as) = (case as_bits as of Inl e \<Rightarrow> Inl e | Inr bs \<Rightarrow> Inr (b # bs))"
| "as_bits (_ # as) = Inl CircuitError"

definition append_bits :: "circuit \<Rightarrow> instruction \<Rightarrow> bit list \<Rightarrow> bit list \<Rightarrow> error + circuit" where
  "append_bits circ ins qs cs =
     (if length qs = num_qubits ins \<and> length cs = num_clbits ins \<and> distinct qs
         \<and> list_all (valid_qubit circ) qs \<and> list_all (valid_clbit circ) cs
      then Inr (circ\<lparr>data := data circ @ [(ins, qs, cs)]\<rparr>)
      else Inl CircuitError)"

definition append_instr :: "circuit \<Rightarrow> instruction \<Rightarrow> arg list \<Rightarrow> arg list \<Rightarrow> error + circuit" where
  "append_instr circ ins qargs cargs =
     and_then (as_bits qargs) (\<lambda>qs.
     and_then (as_bits cargs) (\<lambda>cs.
     append_bits circ ins qs cs))"

text \<open>The gates of the host library that the builders emit, by their names.\<close>

definition gate :: "string \<Rightarrow> nat \<Rightarrow> nat \<Rightarrow> real list \<Rightarrow> instruction" where
  "gate n nq nc ps = \<lparr>name = n, num_qubits = nq, num_clbits = nc, params = ps, condition = None\<rparr>"

definition h_gate :: "circuit \<Rightarrow> arg \<Rightarrow> error + circuit" where
  "h_gate circ q = append_instr circ (gate ''h'' 1 0 []) [q] []"

definition x_gate :: "circuit \<Rightarrow> arg \<Rightarrow> error + circuit" where
  "x_gate circ q = append_instr circ (gate ''x'' 1 0 []) [q] []"

definition z_gate :: "circuit \<Rightarrow> arg \<Rightarrow> error + circuit" where
  "z_gate circ q = append_instr circ (gate ''z'' 1 0 []) [q] []"

definition cnot :: "circuit \<Rightarrow> arg \<Rightarrow> arg \<Rightarrow> error + circuit" where
  "cnot circ c t = append_instr circ (gate ''cx'' 2 0 []) [c, t] []"

definition swap_gate :: "circuit \<Rightarrow> arg \<Rightarrow> arg \<Rightarrow> error + circuit" where
  "swap_gate circ a b = append_instr circ (gate ''swap'' 2 0 []) [a, b] []"

definition measure_gate :: "circuit \<Rightarrow> arg \<Rightarrow> arg \<Rightarrow> error + circuit" where
  "measure_gate circ q c = append_instr circ (gate ''measure'' 1 1 []) [q] [c]"

definition rz :: "circuit \<Rightarrow> arg \<Rightarrow> arg \<Rightarrow> error + circuit" where
  "rz circ phi q =
     (case phi of ANum v \<Rightarrow> append_instr circ (gate ''rz'' 1 0 [v]) [q] []
      | _ \<Rightarrow> Inl CircuitError)"

text \<open>
  \<^verbatim>\<open>c_if(clbit, val)\<close> is called on the instruction that the gate method has just
  appended: it sets that instruction's condition, and refuses anything that is not
  a classical bit.
\<close>

definition c_if :: "circuit \<Rightarrow> arg \<Rightarrow> nat \<Rightarrow> error + circuit" where
  "c_if circ c v =
     (case c of
        ABit b \<Rightarrow>
          (if kind (breg b) = CReg \<and> data circ \<noteq> [] then
             (case last (data circ) of (ins, qs, cs) \<Rightarrow>
                Inr (circ\<lparr>data := butlast (data circ) @ [(ins\<lparr>condition := Some (b, v)\<rparr>, qs, cs)]\<rparr>))
           else Inl CircuitError)
      | _ \<Rightarrow> Inl CircuitError)"

text \<open>Subscription \<^verbatim>\<open>creg[i]\<close> of an argument, and the arithmetic on \<^verbatim>\<open>phi\<close>.\<close>

definition getitem :: "arg \<Rightarrow> nat \<Rightarrow> error + arg" where
  "getitem a i =
     (case a of
        ACargs bs \<Rightarrow> (if i < length bs then Inr (ABit (bs ! i)) else Inl IndexError)
      | AStr s \<Rightarrow> (if i < length s then Inr (AStr [s ! i]) else Inl IndexError)
      | _ \<Rightarrow> Inl TypeError)"

definition halve :: "arg \<Rightarrow> error + arg" where
  "halve a = (case a of ANum v \<Rightarrow> Inr (ANum (v / 2)) | _ \<Rightarrow> Inl TypeError)"

definition negate :: "arg \<Rightarrow> error + arg" where
  "negate a = (case a of ANum v \<Rightarrow> Inr (ANum (- v)) | _ \<Rightarrow> Inl TypeError)"

section \<open>Resource registry\<close>

definition get_cregs :: "circuit \<Rightarrow> pyref \<Rightarrow> error + (circuit \<times> pyref \<times> bool)" where
  "get_cregs circ creg =
     (let has_creg = (case creg of
                        RName s \<Rightarrow> has_register circ (Register CReg 2 s)
                      | RReg r \<Rightarrow> has_register circ r
                      | RNone \<Rightarrow> False)
      in if creg = RNone \<or> \<not> has_creg then
           and_then (add_register circ (Register CReg 2 ''c_epr'')) (\<lambda>circ'.
             Inr (circ', RReg (Register CReg 2 ''c_epr''), True))
         else Inr (circ, creg, False))"

definition get_qregs :: "circuit \<Rightarrow> pyref \<Rightarrow> error + (circuit \<times> pyref \<times> bool)" where
  "get_qregs circ qreg =
     (let has_qreg = (case qreg of
                        RName s \<Rightarrow> has_register circ (Register QReg 2 s)
                      | RReg r \<Rightarrow> has_register circ r
                      | RNone \<Rightarrow> False)
      in if qreg = RNone \<or> \<not> has_qreg then
           and_then (add_register circ (Register QReg 2 ''q_epr'')) (\<lambda>circ'.
             Inr (circ', RReg (Register QReg 2 ''q_epr''), True))
         else Inr (circ, qreg, False))"

section \<open>Protocol library\<close>

definition setAncilla :: "circuit \<Rightarrow> arg \<Rightarrow> arg \<Rightarrow> arg \<Rightarrow> error + circuit" where
  "setAncilla circ epr0 epr1 creg =
     and_then (h_gate circ epr0) (\<lambda>circ.
     cnot circ epr0 epr1)"

definition buildRemoteCRZ :: "circuit \<Rightarrow> arg \<Rightarrow> arg \<Rightarrow> arg \<Rightarrow> arg \<Rightarrow> arg \<Rightarrow> arg \<Rightarrow> error + circuit" where
  "buildRemoteCRZ circ phi ctrl targ epr0 epr1 creg =
     and_then (halve phi) (\<lambda>p.
     and_then (rz circ p ctrl) (\<lambda>circ.
     and_then (halve phi) (\<lambda>p.
     and_then (rz circ p targ) (\<lambda>circ.
     and_then (cnot circ ctrl epr0) (\<lambda>circ.
     and_then (getitem creg 0) (\<lambda>c0.
     and_then (measure_gate circ epr0 c0) (\<lambda>circ.
     and_then (x_gate circ epr1) (\<lambda>circ.
     and_then (getitem creg 0) (\<lambda>c0.
     and_then (c_if circ c0 1) (\<lambda>circ.
     and_then (cnot circ targ epr1) (\<lambda>circ.
     and_then (negate phi) (\<lambda>n.
     and_then (halve n) (\<lambda>p.
     and_then (rz circ p epr1) (\<lambda>circ.
     and_then (h_gate circ epr1) (\<lambda>circ.
     and_then (getitem creg 1) (\<lambda>c1.
     and_then (measure_gate circ epr1 c1) (\<lambda>circ.
     and_then (z_gate circ ctrl) (\<lambda>circ.
     and_then (getitem creg 1) (\<lambda>c1.
     and_then (c_if circ c1 1) (\<lambda>circ.
     and_then (z_gate circ targ) (\<lambda>circ.
     and_then (getitem creg 1) (\<lambda>c1.
     c_if circ c1 1))))))))))))))))))))))"

definition buildRemoteZZ :: "circuit \<Rightarrow> arg \<Rightarrow> arg \<Rightarrow> arg \<Rightarrow> arg \<Rightarrow> arg \<Rightarrow> arg \<Rightarrow> error + circuit" where
  "buildRemoteZZ circ phi qb1 qb2 epr0 epr1 creg =
     and_then (cnot circ qb1 epr0) (\<lambda>circ.
     and_then (cnot circ qb2 epr1) (\<lambda>circ.
     and_then (getitem creg 0) (\<lambda>c0.
     and_then (measure_gate circ epr0 c0) (\<lambda>circ.
     and_then (x_gate circ epr1) (\<lambda>circ.
     and_then (getitem creg 1) (\<lambda>c1.
     and_then (c_if circ c1 1) (\<lambda>circ.
     and_then (rz circ phi epr1) (\<lambda>circ.
     and_then (h_gate circ epr1) (\<lambda>circ.
     and_then (getitem creg 1) (\<lambda>c1.
     and_then (measure_gate circ epr1 c1) (\<lambda>circ.
     and_then (z_gate circ qb1) (\<lambda>circ.
     and_then (getitem creg 1) (\<lambda>c1.
     and_then (c_if circ c1 1) (\<lambda>circ.
     and_then (z_gate circ qb2) (\<lambda>circ.
     and_then (getitem creg 1) (\<lambda>c1.
     and_then (c_if circ c1 1) (\<lambda>circ.
     and_then (x_gate circ epr0) (\<lambda>circ.
     and_then (getitem creg 0) (\<lambda>c0.
     and_then (c_if circ c0 1) (\<lambda>circ.
     and_then (x_gate circ epr1) (\<lambda>circ.
     and_then (getitem creg 1) (\<lambda>c1.
     c_if circ c1 1))))))))))))))))))))))"

definition buildRemoteCX :: "circuit \<Rightarrow> arg \<Rightarrow> arg \<Rightarrow> arg \<Rightarrow> arg \<Rightarrow> arg \<Rightarrow> error + circuit" where
  "buildRemoteCX circ ctrl targ epr0 epr1 creg =
     and_then (cnot circ ctrl epr0) (\<lambda>circ.
     and_then (cnot circ epr1 targ) (\<lambda>circ.
     and_then (getitem creg 0) (\<lambda>c0.
     and_then (measure_gate circ epr0 c0) (\<lambda>circ.
     and_then (x_gate circ epr1) (\<lambda>circ.
     and_then (getitem creg 0) (\<lambda>c0.
     and_then (c_if circ c0 1) (\<lambda>circ.
     and_then (x_gate circ targ) (\<lambda>circ.
     and_then (getitem creg 0) (\<lambda>c0.
     and_then (c_if circ c0 1) (\<lambda>circ.
     and_then (h_gate circ epr1) (\<lambda>circ.
     and_then (getitem creg 1) (\<lambda>c1.
     and_then (measure_gate circ epr1 c1) (\<lambda>circ.
     and_then (z_gate circ ctrl) (\<lambda>circ.
     and_then (getitem creg 1) (\<lambda>c1.
     and_then (c_if circ c1 1) (\<lambda>circ.
     and_then (x_gate circ epr0) (\<lambda>circ.
     and_then (getitem creg 0) (\<lambda>c0.
     and_then (c_if circ c0 1) (\<lambda>circ.
     and_then (x_gate circ epr1) (\<lambda>circ.
     and_then (getitem creg 1) (\<lambda>c1.
     c_if circ c1 1)))))))))))))))))))))"

definition buildTeleportation :: "circuit \<Rightarrow> arg \<Rightarrow> arg \<Rightarrow> arg \<Rightarrow> arg \<Rightarrow> arg \<Rightarrow> error + circuit" where
  "buildTeleportation circ source targ epr0 epr1 creg =
     and_then (cnot circ source epr0) (\<lambda>circ.
     and_then (h_gate circ source) (\<lambda>circ.
     and_then (getitem creg 0) (\<lambda>c0.
     and_then (measure_gate circ source c0) (\<lambda>circ.
     and_then (getitem creg 1) (\<lambda>c1.
     and_then (measure_gate circ epr0 c1) (\<lambda>circ.
     and_then (x_gate circ epr1) (\<lambda>circ.
     and_then (getitem creg 1) (\<lambda>c1.
     and_then (c_if circ c1 1) (\<lambda>circ.
     and_then (z_gate circ epr1) (\<lambda>circ.
     and_then (getitem creg 0) (\<lambda>c0.
     and_then (c_if circ c0 1) (\<lambda>circ.
     and_then (x_gate circ source) (\<lambda>circ.
     and_then (getitem creg 0) (\<lambda>c0.
     and_then (c_if circ c0 1) (\<lambda>circ.
     and_then (x_gate circ epr0) (\<lambda>circ.
     and_then (getitem creg 1) (\<lambda>c1.
     and_then (c_if circ c1 1) (\<lambda>circ.
     swap_gate circ epr1 targ))))))))))))))))))"

section \<open>Rewriting engine: expansion\<close>

text \<open>
  \<^verbatim>\<open>builder(tempCirc, *args)\<close> binds the argument list positionally and raises a
  type error when its length does not fit the builder's parameters
  (\<^verbatim>\<open>setAncilla\<close> has the optional third parameter \<^verbatim>\<open>creg=None\<close>).
\<close>

fun call_setAncilla :: "circuit \<Rightarrow> arg list \<Rightarrow> error + circuit" where
  "call_setAncilla circ [epr0, epr1] = setAncilla circ epr0 epr1 ANone"
| "call_setAncilla circ [epr0, epr1, creg] = setAncilla circ epr0 epr1 creg"
| "call_setAncilla circ _ = Inl TypeError"

fun call_buildRemoteCRZ :: "circuit \<Rightarrow> arg list \<Rightarrow> error + circuit" where
  "call_buildRemoteCRZ circ [phi, ctrl, targ, epr0, epr1, creg] =
     buildRemoteCRZ circ phi ctrl targ epr0 epr1 creg"
| "call_buildRemoteCRZ circ _ = Inl TypeError"

fun call_buildRemoteZZ :: "circuit \<Rightarrow> arg list \<Rightarrow> error + circuit" where
  "call_buildRemoteZZ circ [phi, qb1, qb2, epr0, epr1, creg] =
     buildRemoteZZ circ phi qb1 qb2 epr0 epr1 creg"
| "call_buildRemoteZZ circ _ = Inl TypeError"

fun call_buildRemoteCX :: "circuit \<Rightarrow> arg list \<Rightarrow> error + circuit" where
  "call_buildRemoteCX circ [ctrl, targ, epr0, epr1, creg] =
     buildRemoteCX circ ctrl targ epr0 epr1 creg"
| "call_buildRemoteCX circ _ = Inl TypeError"

fun call_buildTeleportation :: "circuit \<Rightarrow> arg list \<Rightarrow> error + circuit" where
  "call_buildTeleportation circ [source, targ, epr0, epr1, creg] =
     buildTeleportation circ source targ epr0 epr1 creg"
| "call_buildTeleportation circ _ = Inl TypeError"

text \<open>The body of the branch \<^verbatim>\<open>if obj.name in gates\<close>, on the scratch circuit.\<close>

definition build_op :: "circuit \<Rightarrow> item \<Rightarrow> error + circuit" where
  "build_op tempCirc op =
     (let obj = fst op;
          args = map ANum (params obj) @ map ABit (fst (snd op)) @ [ACargs (snd (snd op))]
      in if name obj = ''RemoteCX'' then call_buildRemoteCX tempCirc args
         else if name obj = ''RemoteRZZ'' then call_buildRemoteZZ tempCirc args
         else if name obj = ''RemoteCRZ'' then call_buildRemoteCRZ tempCirc args
         else if name obj = ''Teleport'' then call_buildTeleportation tempCirc args
         else if name obj = ''GenEPR'' then call_setAncilla tempCirc args
         else Inr tempCirc)"

definition enumerate_from :: "nat \<Rightarrow> 'a list \<Rightarrow> (nat \<times> 'a) list" where
  "enumerate_from k xs = zip [k ..< k + length xs] xs"

definition slice :: "'a list \<Rightarrow> nat \<Rightarrow> nat \<Rightarrow> 'a list" where
  "slice xs a b = drop a (take b xs)"

fun decompose_loop ::
  "circuit \<Rightarrow> string list \<Rightarrow> circuit \<Rightarrow> (nat \<times> item) list \<Rightarrow> item list \<times> nat
     \<Rightarrow> error + (item list \<times> nat)" where
  "decompose_loop circ gates emptyCirc [] st = Inr st"
| "decompose_loop circ gates emptyCirc ((idx, op) # rest) (circuitChunks, idxStart) =
     (if name (fst op) \<in> set gates then
        (case build_op emptyCirc op of
           Inl e \<Rightarrow> Inl e
         | Inr tempCirc \<Rightarrow>
             decompose_loop circ gates emptyCirc rest
               (circuitChunks @ slice (data circ) idxStart idx @ data tempCirc, idx + 1))
      else decompose_loop circ gates emptyCirc rest (circuitChunks, idxStart))"

definition decompose :: "circuit \<Rightarrow> string list \<Rightarrow> error + circuit" where
  "decompose circ gates =
     (let emptyCirc = circ\<lparr>data := []\<rparr> in
      case decompose_loop circ gates emptyCirc (enumerate_from 0 (data circ)) ([], 0) of
        Inl e \<Rightarrow> Inl e
      | Inr (circuitChunks, idxStart) \<Rightarrow>
          Inr (circ\<lparr>data := circuitChunks @ drop idxStart (data circ)\<rparr>))"

definition default_gates :: "string list" where
  "default_gates = [''RemoteCX'', ''RemoteRZZ'', ''RemoteCRZ'', ''Teleport'', ''GenEPR'']"

section \<open>Rewriting engine: macro insertion\<close>

text \<open>
  Subscription \<^verbatim>\<open>qreg[i]\<close> of a resolved register reference and its iteration as
  an operand list: a register handle yields its bits, a name string its characters.
\<close>

definition ref_getitem :: "pyref \<Rightarrow> nat \<Rightarrow> error + arg" where
  "ref_getitem r i =
     (case r of
        RReg reg \<Rightarrow> (if i < rsize reg then Inr (ABit (Bit reg i)) else Inl IndexError)
      | RName s \<Rightarrow> (if i < length s then Inr (AStr [s ! i]) else Inl IndexError)
      | RNone \<Rightarrow> Inl TypeError)"

definition ref_iter :: "pyref \<Rightarrow> arg list" where
  "ref_iter r =
     (case r of
        RReg reg \<Rightarrow> map (\<lambda>i. ABit (Bit reg i)) [0 ..< rsize reg]
      | RName s \<Rightarrow> map (\<lambda>c. AStr [c]) s
      | RNone \<Rightarrow> [])"

definition instrSet :: "real list \<Rightarrow> (string \<rightharpoonup> instruction)" where
  "instrSet ps = map_of
     [(''RemoteCX'', gate ''RemoteCX'' 4 2 ps),
      (''RemoteRZZ'', gate ''RemoteRZZ'' 4 2 ps),
      (''RemoteCRZ'', gate ''RemoteCRZ'' 4 2 ps),
      (''Teleport'', gate ''Teleport'' 4 2 ps),
      (''GenEPR'', gate ''GenEPR'' 2 0 ps)]"

definition dict_getitem :: "('k \<rightharpoonup> 'v) \<Rightarrow> 'k \<Rightarrow> error + 'v" where
  "dict_getitem d k = (case d k of None \<Rightarrow> Inl KeyError | Some v \<Rightarrow> Inr v)"

text \<open>
  A call that mutates the circuit and may raise returns the circuit as the call
  left it, and the error raised, if any.
\<close>

definition try_in :: "circuit \<Rightarrow> error + 'a \<Rightarrow> ('a \<Rightarrow> circuit \<times> error option) \<Rightarrow> circuit \<times> error option" where
  "try_in circ m f = (case m of Inl e \<Rightarrow> (circ, Some e) | Inr v \<Rightarrow> f v)"

definition addInstr ::
  "circuit \<Rightarrow> string \<Rightarrow> arg \<Rightarrow> arg \<Rightarrow> real list \<Rightarrow> pyref \<Rightarrow> pyref \<Rightarrow> circuit \<times> error option" where
  "addInstr circ nm qb1 qb2 ps epr_creg epr_qreg =
     try_in circ (get_cregs circ epr_creg) (\<lambda>(circ, creg, _).
     try_in circ (get_qregs circ epr_qreg) (\<lambda>(circ, qreg, _).
     try_in circ (ref_getitem qreg 0) (\<lambda>q0.
     try_in circ (ref_getitem qreg 1) (\<lambda>q1.
     try_in circ (dict_getitem (instrSet ps) ''GenEPR'') (\<lambda>genEPR.
     try_in circ (append_instr circ genEPR (ref_iter qreg) []) (\<lambda>circ.
       if nm \<noteq> ''GenEPR'' then
         (case and_then (dict_getitem (instrSet ps) nm) (\<lambda>ins.
                 append_instr circ ins [qb1, qb2, q0, q1] (ref_iter creg)) of
            Inl e \<Rightarrow> (circ, Some UndefinedInstruction)
          | Inr circ' \<Rightarrow> (circ', None))
       else (circ, None)))))))"

section \<open>Rewriting engine: substitution\<close>

definition substitute :: "bit list \<times> bit list \<Rightarrow> item \<Rightarrow> bool" where
  "substitute reglist op =
     ((fst (snd op) ! 0 \<in> set (fst reglist) \<and> fst (snd op) ! 1 \<in> set (snd reglist))
      \<or> (fst (snd op) ! 1 \<in> set (fst reglist) \<and> fst (snd op) ! 0 \<in> set (snd reglist)))"

text \<open>The body of the branch \<^verbatim>\<open>if obj.name in gates and substitute==True\<close>.\<close>

definition substitute_op :: "circuit \<Rightarrow> pyref \<Rightarrow> pyref \<Rightarrow> item \<Rightarrow> error + circuit" where
  "substitute_op tempCirc creg qreg op =
     (if name (fst op) = ''cx'' then
        (case addInstr tempCirc ''RemoteCX'' (ABit (fst (snd op) ! 0)) (ABit (fst (snd op) ! 1))
                [] creg qreg of
           (tempCirc', None) \<Rightarrow> Inr tempCirc'
         | (tempCirc', Some e) \<Rightarrow> Inl e)
      else Inr tempCirc)"

fun autosubstitute_loop ::
  "circuit \<Rightarrow> bit list \<times> bit list \<Rightarrow> string list \<Rightarrow> circuit \<Rightarrow> pyref \<Rightarrow> pyref
     \<Rightarrow> (nat \<times> item) list \<Rightarrow> item list \<times> nat \<Rightarrow> error + (item list \<times> nat)" where
  "autosubstitute_loop circ reglist gates emptyCirc creg qreg [] st = Inr st"
| "autosubstitute_loop circ reglist gates emptyCirc creg qreg ((idx, op) # rest)
     (circuitChunks, idxStart) =
     (if length (fst (snd op)) = 2 then
        (if name (fst op) \<in> set gates \<and> substitute reglist op then
           (case substitute_op emptyCirc creg qreg op of
              Inl e \<Rightarrow> Inl e
            | Inr tempCirc \<Rightarrow>
                autosubstitute_loop circ reglist gates emptyCirc creg qreg rest
                  (circuitChunks @ slice (data circ) idxStart idx @ data tempCirc, idx + 1))
         else autosubstitute_loop circ reglist gates emptyCirc creg qreg rest
                (circuitChunks, idxStart))
      else autosubstitute_loop circ reglist gates emptyCirc creg qreg rest
             (circuitChunks, idxStart))"

definition autosubstitute ::
  "circuit \<Rightarrow> bit list \<times> bit list \<Rightarrow> string list \<Rightarrow> pyref \<Rightarrow> pyref \<Rightarrow> circuit \<times> error option" where
  "autosubstitute circ reglist gates epr_qreg epr_creg =
     try_in circ (get_cregs circ epr_creg) (\<lambda>(circ, creg, _).
     try_in circ (get_qregs circ epr_qreg) (\<lambda>(circ, qreg, _).
       let emptyCirc = circ\<lparr>data := []\<rparr> in
       try_in circ (autosubstitute_loop circ reglist gates emptyCirc creg qreg
                      (enumerate_from 0 (data circ)) ([], 0))
         (\<lambda>(circuitChunks, idxStart).
            (circ\<lparr>data := circuitChunks @ drop idxStart (data circ)\<rparr>, None))))"

section \<open>The passes as maps over the instruction list\<close>

text \<open>
  What one instruction contributes to the output of \<open>decompose\<close>, and the
  contributions of a list in order; likewise for \<open>autosubstitute\<close>. The loops are
  shown below to compute exactly these.
\<close>

definition expand_op :: "circuit \<Rightarrow> string list \<Rightarrow> item \<Rightarrow> error + item list" where
  "expand_op emptyCirc gates op =
     (if name (fst op) \<in> set gates then
        (case build_op emptyCirc op of Inl e \<Rightarrow> Inl e | Inr tempCirc \<Rightarrow> Inr (data tempCirc))
      else Inr [op])"

definition replace_op ::
  "circuit \<Rightarrow> bit list \<times> bit list \<Rightarrow> string list \<Rightarrow> pyref \<Rightarrow> pyref \<Rightarrow> item \<Rightarrow> error + item list" where
  "replace_op emptyCirc reglist gates creg qreg op =
     (if length (fst (snd op)) = 2 \<and> name (fst op) \<in> set gates \<and> substitute reglist op then
        (case substitute_op emptyCirc creg qreg op of
           Inl e \<Rightarrow> Inl e | Inr tempCirc \<Rightarrow> Inr (data tempCirc))
      else Inr [op])"

fun concat_results :: "('a \<Rightarrow> error + 'b list) \<Rightarrow> 'a list \<Rightarrow> error + 'b list" where
  "concat_results f [] = Inr []"
| "concat_results f (op # ops) =
     (case f op of
        Inl e \<Rightarrow> Inl e
      | Inr xs \<Rightarrow> (case concat_results f ops of Inl e \<Rightarrow> Inl e | Inr ys \<Rightarrow> Inr (xs @ ys)))"

definition substitute_all ::
  "circuit \<Rightarrow> bit list \<times> bit list \<Rightarrow> string list \<Rightarrow> pyref \<Rightarrow> pyref \<Rightarrow> circuit \<times> error option" where
  "substitute_all circ reglist gates creg qreg =
     (case concat_results (replace_op (circ\<lparr>data := []\<rparr>) reglist gates creg qreg) (data circ) of
        Inl e \<Rightarrow> (circ, Some e)
      | Inr ys \<Rightarrow> (circ\<lparr>data := ys\<rparr>, None))"

definition finish :: "circuit \<Rightarrow> error + (item list \<times> nat) \<Rightarrow> error + item list" where
  "finish circ r = (case r of Inl e \<Rightarrow> Inl e | Inr (ch, s) \<Rightarrow> Inr (ch @ drop s (data circ)))"

section \<open>Invariants of the scratch circuit\<close>

text \<open>
  The names of the primitive instructions that the builders emit, the circuits that
  hold only such instructions, and what it means for a call that may raise to keep a
  property of the circuit.
\<close>

definition primitive_names :: "string set" where
  "primitive_names = {''h'', ''cx'', ''rz'', ''measure'', ''x'', ''z'', ''swap''}"

definition prim_only :: "circuit \<Rightarrow> bool" where
  "prim_only circ = list_all (\<lambda>it. name (fst it) \<in> primitive_names) (data circ)"

definition keeps :: "(circuit \<Rightarrow> bool) \<Rightarrow> error + circuit \<Rightarrow> bool" where
  "keeps P m = (case m of Inl e \<Rightarrow> True | Inr circ \<Rightarrow> P circ)"

section \<open>Example circuits\<close>

text \<open>
  A circuit with a data register \<open>q\<close>, the entanglement registers \<open>q_epr\<close> and
  \<open>c_epr\<close>, each of two units, and some instructions on them.
\<close>

definition q_reg :: register where
  "q_reg = Register QReg 2 ''q''"

definition e_reg :: register where
  "e_reg = Register QReg 2 ''q_epr''"

definition c_reg :: register where
  "c_reg = Register CReg 2 ''c_epr''"

definition cx_circ :: circuit where
  "cx_circ = \<lparr>qregs = [q_reg, e_reg], cregs = [c_reg],
     data = [(gate ''RemoteCX'' 4 2 [],
              [Bit q_reg 0, Bit q_reg 1, Bit e_reg 0, Bit e_reg 1], [Bit c_reg 0, Bit c_reg 1])]\<rparr>"

definition h_item :: item where
  "h_item = (gate ''h'' 1 0 [], [Bit q_reg 0], [])"

definition cz_item :: item where
  "cz_item = (gate ''cz'' 2 0 [], [Bit q_reg 0, Bit q_reg 1], [])"

definition epr_item :: item where
  "epr_item = (gate ''GenEPR'' 2 0 [], [Bit e_reg 0, Bit e_reg 1], [])"

definition base_circ :: circuit where
  "base_circ = \<lparr>qregs = [q_reg], cregs = [], data = []\<rparr>"

definition remote_cx_out :: "item list" where
  "remote_cx_out =
     [(gate ''cx'' 2 0 [], [Bit q_reg 0, Bit e_reg 0], []),
      (gate ''cx'' 2 0 [], [Bit e_reg 1, Bit q_reg 1], []),
      (gate ''measure'' 1 1 [], [Bit e_reg 0], [Bit c_reg 0]),
      ((gate ''x'' 1 0 [])\<lparr>condition := Some (Bit c_reg 0, 1)\<rparr>, [Bit e_reg 1], []),
      ((gate ''x'' 1 0 [])\<lparr>condition := Some (Bit c_reg 0, 1)\<rparr>, [Bit q_reg 1], []),
      (gate ''h'' 1 0 [], [Bit e_reg 1], []),
      (gate ''measure'' 1 1 [], [Bit e_reg 1], [Bit c_reg 1]),
      ((gate ''z'' 1 0 [])\<lparr>condition := Some (Bit c_reg 1, 1)\<rparr>, [Bit q_reg 0], []),
      ((gate ''x'' 1 0 [])\<lparr>condition := Some (Bit c_reg 0, 1)\<rparr>, [Bit e_reg 0], []),
      ((gate ''x'' 1 0 [])\<lparr>condition := Some (Bit c_reg 1, 1)\<rparr>, [Bit e_reg 1], [])]"

definition q3_reg :: register where
  "q3_reg = Register QReg 3 ''q''"

definition cx_item :: "nat \<Rightarrow> nat \<Rightarrow> item" where
  "cx_item i j = (gate ''cx'' 2 0 [], [Bit q3_reg i, Bit q3_reg j], [])"

definition sub_circ :: circuit where
  "sub_circ = \<lparr>qregs = [q3_reg], cregs = [], data = [cx_item 0 1, cx_item 1 0, cx_item 0 2]\<rparr>"

definition sub_regs :: circuit where
  "sub_regs = \<lparr>qregs = [q3_reg, e_reg], cregs = [c_reg], data = []\<rparr>"

definition remote_items :: "nat \<Rightarrow> nat \<Rightarrow> item list" where
  "remote_items i j =
     [(gate ''GenEPR'' 2 0 [], [Bit e_reg 0, Bit e_reg 1], []),
      (gate ''RemoteCX'' 4 2 [], [Bit q3_reg i, Bit q3_reg j, Bit e_reg 0, Bit e_reg 1],
       [Bit c_reg 0, Bit c_reg 1])]"

definition cz3_item :: item where
  "cz3_item = (gate ''cz'' 2 0 [], [Bit q3_reg 1, Bit q3_reg 0], [])"

definition mix_circ :: circuit where
  "mix_circ = \<lparr>qregs = [q3_reg], cregs = [], data = [cx_item 0 1, cz3_item, cx_item 0 2]\<rparr>"

definition cz_circ :: circuit where
  "cz_circ = \<lparr>qregs = [q_reg], cregs = [], data = [cz_item]\<rparr>"

section \<open>Basic facts\<close>

lemma and_then_Inr [simp]: "and_then (Inr v) f = f v"
  by (simp add: and_then_def)

lemma and_then_Inl [simp]: "and_then (Inl e) f = Inl e"
  by (simp add: and_then_def)

lemma and_then_eq_Inr: "(and_then m f = Inr y) = (\<exists>v. m = Inr v \<and> f v = Inr y)"
  by (cases m) simp_all

lemma try_in_Inr [simp]: "try_in circ (Inr v) f = f v"
  by (simp add: try_in_def)

lemma try_in_Inl [simp]: "try_in circ (Inl e) f = (circ, Some e)"
  by (simp add: try_in_def)

lemma enumerate_from_Cons: "enumerate_from k (y # ys) = (k, y) # enumerate_from (Suc k) ys"
  by (simp add: enumerate_from_def upt_rec)

lemma enumerate_from_Nil: "enumerate_from k [] = []"
  by (simp add: enumerate_from_def)

lemma concat_results_append:
  "concat_results f (xs @ ys) =
     (case concat_results f xs of
        Inl e \<Rightarrow> Inl e
      | Inr p \<Rightarrow> (case concat_results f ys of Inl e \<Rightarrow> Inl e | Inr q \<Rightarrow> Inr (p @ q)))"
  by (induction xs) (simp_all split: sum.splits)

section \<open>The loop of decompose\<close>

lemma decompose_loop_expand:
  "data circ = pre @ rest \<Longrightarrow> s \<le> length pre \<Longrightarrow>
   finish circ (decompose_loop circ gates E (enumerate_from (length pre) rest) (chunks, s)) =
   (case concat_results (expand_op E gates) rest of
      Inl e \<Rightarrow> Inl e | Inr ys \<Rightarrow> Inr (chunks @ drop s pre @ ys))"
proof (induction rest arbitrary: pre s chunks)
  case Nil
  then show ?case by (simp add: enumerate_from_Nil finish_def)
next
  case (Cons op rest)
  have d: "data circ = (pre @ [op]) @ rest" using Cons.prems by simp
  show ?case
  proof (cases "name (fst op) \<in> set gates")
    case False
    have "s \<le> length (pre @ [op])" using Cons.prems by simp
    from Cons.IH[OF d this, of chunks] False Cons.prems show ?thesis
      by (simp add: enumerate_from_Cons expand_op_def split: sum.splits)
  next
    case True
    show ?thesis
    proof (cases "build_op E op")
      case (Inl e)
      then show ?thesis using True by (simp add: enumerate_from_Cons expand_op_def finish_def)
    next
      case (Inr t)
      have "Suc (length pre) \<le> length (pre @ [op])" by simp
      from Cons.IH[OF d this, of "chunks @ slice (data circ) s (length pre) @ data t"]
      show ?thesis using True Inr Cons.prems
        by (simp add: enumerate_from_Cons expand_op_def slice_def split: sum.splits)
    qed
  qed
qed

lemma decompose_expand:
  "decompose circ gates =
     (case concat_results (expand_op (circ\<lparr>data := []\<rparr>) gates) (data circ) of
        Inl e \<Rightarrow> Inl e | Inr ys \<Rightarrow> Inr (circ\<lparr>data := ys\<rparr>))"
  using decompose_loop_expand[of circ "[]" "data circ" 0 gates "circ\<lparr>data := []\<rparr>" "[]"]
  by (simp add: decompose_def finish_def split: sum.splits prod.splits)

lemma valid_qubit_data [simp]: "valid_qubit (circ\<lparr>data := xs\<rparr>) b = valid_qubit circ b"
  by (simp add: valid_qubit_def)

lemma valid_clbit_data [simp]: "valid_clbit (circ\<lparr>data := xs\<rparr>) b = valid_clbit circ b"
  by (simp add: valid_clbit_def)

section \<open>Remote CX expansion\<close>

lemma build_op_RemoteCX:
  assumes n: "name ins = ''RemoteCX''" and p: "params ins = []"
    and q: "valid_qubit circ q0" "valid_qubit circ q1" "valid_qubit circ e0" "valid_qubit circ e1"
    and ne: "q0 \<noteq> e0" "e1 \<noteq> q1"
    and c: "valid_clbit circ c0" "valid_clbit circ c1"
  shows "build_op (circ\<lparr>data := []\<rparr>) (ins, [q0, q1, e0, e1], [c0, c1]) = Inr (circ\<lparr>data :=
     [(gate ''cx'' 2 0 [], [q0, e0], []),
      (gate ''cx'' 2 0 [], [e1, q1], []),
      (gate ''measure'' 1 1 [], [e0], [c0]),
      ((gate ''x'' 1 0 [])\<lparr>condition := Some (c0, 1)\<rparr>, [e1], []),
      ((gate ''x'' 1 0 [])\<lparr>condition := Some (c0, 1)\<rparr>, [q1], []),
      (gate ''h'' 1 0 [], [e1], []),
      (gate ''measure'' 1 1 [], [e1], [c1]),
      ((gate ''z'' 1 0 [])\<lparr>condition := Some (c1, 1)\<rparr>, [q0], []),
      ((gate ''x'' 1 0 [])\<lparr>condition := Some (c0, 1)\<rparr>, [e0], []),
      ((gate ''x'' 1 0 [])\<lparr>condition := Some (c1, 1)\<rparr>, [e1], [])]\<rparr>)"
proof -
  have k: "kind (breg c0) = CReg" "kind (breg c1) = CReg"
    using c by (simp_all add: valid_clbit_def)
  show ?thesis
    using n p q ne c k
    by (simp add: build_op_def buildRemoteCX_def cnot_def measure_gate_def x_gate_def
        z_gate_def h_gate_def c_if_def getitem_def append_instr_def append_bits_def gate_def)
qed

text \<open>
  C3. A circuit whose instruction list is the single instruction
  RemoteCX(q0, q1, e0, e1; c0, c1), the operands being qubits and classical bits of
  the circuit, is decomposed into exactly the ten instructions CNOT(q0, e0),
  CNOT(e1, q1), measure(e0 into c0), X(e1) if c0 = 1, X(q1) if c0 = 1, H(e1),
  measure(e1 into c1), Z(q0) if c1 = 1, X(e0) if c0 = 1, X(e1) if c1 = 1, in this
  order.
\<close>

theorem decompose_RemoteCX:
  assumes "data circ = [(ins, [q0, q1, e0, e1], [c0, c1])]"
    and "name ins = ''RemoteCX''" and "params ins = []"
    and "''RemoteCX'' \<in> set gates"
    and "valid_qubit circ q0" "valid_qubit circ q1" "valid_qubit circ e0" "valid_qubit circ e1"
    and "q0 \<noteq> e0" "e1 \<noteq> q1"
    and "valid_clbit circ c0" "valid_clbit circ c1"
  shows "decompose circ gates = Inr (circ\<lparr>data :=
     [(gate ''cx'' 2 0 [], [q0, e0], []),
      (gate ''cx'' 2 0 [], [e1, q1], []),
      (gate ''measure'' 1 1 [], [e0], [c0]),
      ((gate ''x'' 1 0 [])\<lparr>condition := Some (c0, 1)\<rparr>, [e1], []),
      ((gate ''x'' 1 0 [])\<lparr>condition := Some (c0, 1)\<rparr>, [q1], []),
      (gate ''h'' 1 0 [], [e1], []),
      (gate ''measure'' 1 1 [], [e1], [c1]),
      ((gate ''z'' 1 0 [])\<lparr>condition := Some (c1, 1)\<rparr>, [q0], []),
      ((gate ''x'' 1 0 [])\<lparr>condition := Some (c0, 1)\<rparr>, [e0], []),
      ((gate ''x'' 1 0 [])\<lparr>condition := Some (c1, 1)\<rparr>, [e1], [])]\<rparr>)"
  using assms build_op_RemoteCX[of ins circ q0 q1 e0 e1 c0 c1]
  by (simp add: decompose_expand expand_op_def)

theorem decompose_RemoteCX_witness:
  "decompose cx_circ default_gates = Inr (cx_circ\<lparr>data :=
     [(gate ''cx'' 2 0 [], [Bit q_reg 0, Bit e_reg 0], []),
      (gate ''cx'' 2 0 [], [Bit e_reg 1, Bit q_reg 1], []),
      (gate ''measure'' 1 1 [], [Bit e_reg 0], [Bit c_reg 0]),
      ((gate ''x'' 1 0 [])\<lparr>condition := Some (Bit c_reg 0, 1)\<rparr>, [Bit e_reg 1], []),
      ((gate ''x'' 1 0 [])\<lparr>condition := Some (Bit c_reg 0, 1)\<rparr>, [Bit q_reg 1], []),
      (gate ''h'' 1 0 [], [Bit e_reg 1], []),
      (gate ''measure'' 1 1 [], [Bit e_reg 1], [Bit c_reg 1]),
      ((gate ''z'' 1 0 [])\<lparr>condition := Some (Bit c_reg 1, 1)\<rparr>, [Bit q_reg 0], []),
      ((gate ''x'' 1 0 [])\<lparr>condition := Some (Bit c_reg 0, 1)\<rparr>, [Bit e_reg 0], []),
      ((gate ''x'' 1 0 [])\<lparr>condition := Some (Bit c_reg 1, 1)\<rparr>, [Bit e_reg 1], [])]\<rparr>)"
proof -
  have d: "data cx_circ = [(gate ''RemoteCX'' 4 2 [],
              [Bit q_reg 0, Bit q_reg 1, Bit e_reg 0, Bit e_reg 1], [Bit c_reg 0, Bit c_reg 1])]"
    by (simp add: cx_circ_def)
  have n: "name (gate ''RemoteCX'' 4 2 []) = ''RemoteCX''" "params (gate ''RemoteCX'' 4 2 []) = []"
    by (simp_all add: gate_def)
  have g: "''RemoteCX'' \<in> set default_gates" by (simp add: default_gates_def)
  have q: "valid_qubit cx_circ (Bit q_reg 0)" "valid_qubit cx_circ (Bit q_reg 1)"
    "valid_qubit cx_circ (Bit e_reg 0)" "valid_qubit cx_circ (Bit e_reg 1)"
    by (simp_all add: valid_qubit_def cx_circ_def q_reg_def e_reg_def)
  have ne: "Bit q_reg 0 \<noteq> Bit e_reg 0" "Bit e_reg 1 \<noteq> Bit q_reg 1"
    by (simp_all add: q_reg_def e_reg_def)
  have c: "valid_clbit cx_circ (Bit c_reg 0)" "valid_clbit cx_circ (Bit c_reg 1)"
    by (simp_all add: valid_clbit_def cx_circ_def c_reg_def)
  show ?thesis
    by (rule decompose_RemoteCX[OF d n g q ne c])
qed

section \<open>Expansion: kinds without a builder, and order\<close>

lemma build_op_other:
  "name (fst op) \<notin> set default_gates \<Longrightarrow> build_op E op = Inr E"
  by (simp add: build_op_def default_gates_def Let_def)

lemma expand_op_other:
  "name (fst op) \<in> set gates \<Longrightarrow> name (fst op) \<notin> set default_gates \<Longrightarrow>
   expand_op (circ\<lparr>data := []\<rparr>) gates op = Inr []"
  by (simp add: expand_op_def build_op_other)

lemma circuit_data_eq: "(circ\<lparr>data := xs\<rparr> = circ\<lparr>data := ys\<rparr>) = (xs = ys)" for circ :: circuit
  by (cases circ) simp

lemma decompose_data:
  "(decompose (circ\<lparr>data := xs\<rparr>) gates = Inr c') =
   (\<exists>ys. concat_results (expand_op (circ\<lparr>data := []\<rparr>) gates) xs = Inr ys \<and> c' = circ\<lparr>data := ys\<rparr>)"
  by (auto simp add: decompose_expand split: sum.splits)

lemma valid_cx_circ:
  "valid_qubit cx_circ (Bit q_reg 0)" "valid_qubit cx_circ (Bit q_reg 1)"
  "valid_qubit cx_circ (Bit e_reg 0)" "valid_qubit cx_circ (Bit e_reg 1)"
  "valid_clbit cx_circ (Bit c_reg 0)" "valid_clbit cx_circ (Bit c_reg 1)"
  by (simp_all add: valid_qubit_def valid_clbit_def cx_circ_def q_reg_def e_reg_def c_reg_def)

lemma build_op_epr_item:
  "build_op (cx_circ\<lparr>data := []\<rparr>) epr_item =
     Inr (cx_circ\<lparr>data := [(gate ''h'' 1 0 [], [Bit e_reg 0], []),
                             (gate ''cx'' 2 0 [], [Bit e_reg 0, Bit e_reg 1], [])]\<rparr>)"
  using valid_cx_circ
  by (simp add: build_op_def epr_item_def gate_def setAncilla_def h_gate_def cnot_def
      append_instr_def append_bits_def)

text \<open>
  C9. When \<open>gates\<close> contains a name that is not one of the five macro kinds,
  \<open>decompose\<close> deletes an instruction of that kind: the result is the result for
  the list without the instruction, nothing is emitted in its place, and the
  instruction alone decomposes to the empty list without error.
\<close>

theorem decompose_deletes_other_kinds:
  assumes "name (fst op) \<in> set gates" and "name (fst op) \<notin> set default_gates"
  shows "decompose (circ\<lparr>data := pre @ op # post\<rparr>) gates = decompose (circ\<lparr>data := pre @ post\<rparr>) gates
         \<and> decompose (circ\<lparr>data := [op]\<rparr>) gates = Inr (circ\<lparr>data := []\<rparr>)"
  using assms
  by (simp add: decompose_expand concat_results_append expand_op_other split: sum.splits)

theorem decompose_deletes_other_kinds_witness:
  "decompose (cx_circ\<lparr>data := [h_item, cz_item, epr_item]\<rparr>) [''cz'', ''GenEPR'']
     = decompose (cx_circ\<lparr>data := [h_item, epr_item]\<rparr>) [''cz'', ''GenEPR'']
   \<and> decompose (cx_circ\<lparr>data := [cz_item]\<rparr>) [''cz'', ''GenEPR''] = Inr (cx_circ\<lparr>data := []\<rparr>)
   \<and> decompose (cx_circ\<lparr>data := [h_item, epr_item]\<rparr>) [''cz'', ''GenEPR'']
     = Inr (cx_circ\<lparr>data := [h_item, (gate ''h'' 1 0 [], [Bit e_reg 0], []),
                             (gate ''cx'' 2 0 [], [Bit e_reg 0, Bit e_reg 1], [])]\<rparr>)"
proof -
  have a: "name (fst cz_item) \<in> set [''cz'', ''GenEPR'']"
    by (simp add: cz_item_def gate_def)
  have b: "name (fst cz_item) \<notin> set default_gates"
    by (simp add: cz_item_def gate_def default_gates_def)
  have c: "decompose (cx_circ\<lparr>data := [h_item, epr_item]\<rparr>) [''cz'', ''GenEPR'']
     = Inr (cx_circ\<lparr>data := [h_item, (gate ''h'' 1 0 [], [Bit e_reg 0], []),
                             (gate ''cx'' 2 0 [], [Bit e_reg 0, Bit e_reg 1], [])]\<rparr>)"
    using build_op_epr_item
    by (simp add: decompose_expand expand_op_def) (simp add: h_item_def epr_item_def gate_def)
  from decompose_deletes_other_kinds[OF a b, where circ = cx_circ and pre = "[h_item]"
      and post = "[epr_item]"] c
  show ?thesis by simp
qed

text \<open>
  C5. \<open>decompose\<close> preserves order: it succeeds on a list \<open>pre @ op # post\<close>
  exactly when it succeeds on \<open>pre\<close>, on \<open>op\<close> alone and on \<open>post\<close>, and its
  output is then the output for \<open>pre\<close>, followed by the output for \<open>op\<close>,
  followed by the output for \<open>post\<close>; the output for an instruction whose kind is
  not in \<open>gates\<close> is the instruction itself.
\<close>

theorem decompose_order_preserved:
  "(decompose (circ\<lparr>data := pre @ op # post\<rparr>) gates = Inr c') =
   (\<exists>p e q. decompose (circ\<lparr>data := pre\<rparr>) gates = Inr (circ\<lparr>data := p\<rparr>)
      \<and> decompose (circ\<lparr>data := [op]\<rparr>) gates = Inr (circ\<lparr>data := e\<rparr>)
      \<and> decompose (circ\<lparr>data := post\<rparr>) gates = Inr (circ\<lparr>data := q\<rparr>)
      \<and> c' = circ\<lparr>data := p @ e @ q\<rparr>
      \<and> (name (fst op) \<notin> set gates \<longrightarrow> e = [op]))"
  by (auto simp add: decompose_data circuit_data_eq concat_results_append expand_op_def
      split: sum.splits)

theorem decompose_order_preserved_witness:
  "decompose (cx_circ\<lparr>data := [epr_item, h_item, cz_item]\<rparr>) default_gates
     = Inr (cx_circ\<lparr>data := [(gate ''h'' 1 0 [], [Bit e_reg 0], []),
                             (gate ''cx'' 2 0 [], [Bit e_reg 0, Bit e_reg 1], []), h_item, cz_item]\<rparr>)"
proof -
  have n: "name (fst h_item) \<notin> set default_gates" "name (fst cz_item) \<notin> set default_gates"
    "name (fst epr_item) \<in> set default_gates"
    by (simp_all add: h_item_def cz_item_def epr_item_def gate_def default_gates_def)
  have p: "decompose (cx_circ\<lparr>data := [epr_item]\<rparr>) default_gates =
      Inr (cx_circ\<lparr>data := [(gate ''h'' 1 0 [], [Bit e_reg 0], []),
                             (gate ''cx'' 2 0 [], [Bit e_reg 0, Bit e_reg 1], [])]\<rparr>)"
    using build_op_epr_item n by (simp add: decompose_expand expand_op_def)
  have e: "decompose (cx_circ\<lparr>data := [h_item]\<rparr>) default_gates = Inr (cx_circ\<lparr>data := [h_item]\<rparr>)"
    using n by (simp add: decompose_expand expand_op_def)
  have q: "decompose (cx_circ\<lparr>data := [cz_item]\<rparr>) default_gates = Inr (cx_circ\<lparr>data := [cz_item]\<rparr>)"
    using n by (simp add: decompose_expand expand_op_def)
  have "\<exists>p e q. decompose (cx_circ\<lparr>data := [epr_item]\<rparr>) default_gates = Inr (cx_circ\<lparr>data := p\<rparr>)
      \<and> decompose (cx_circ\<lparr>data := [h_item]\<rparr>) default_gates = Inr (cx_circ\<lparr>data := e\<rparr>)
      \<and> decompose (cx_circ\<lparr>data := [cz_item]\<rparr>) default_gates = Inr (cx_circ\<lparr>data := q\<rparr>)
      \<and> cx_circ\<lparr>data := [(gate ''h'' 1 0 [], [Bit e_reg 0], []),
                             (gate ''cx'' 2 0 [], [Bit e_reg 0, Bit e_reg 1], []), h_item, cz_item]\<rparr>
          = cx_circ\<lparr>data := p @ e @ q\<rparr>
      \<and> (name (fst h_item) \<notin> set default_gates \<longrightarrow> e = [h_item])"
    using p e q by (intro exI[of _ "[(gate ''h'' 1 0 [], [Bit e_reg 0], []),
                             (gate ''cx'' 2 0 [], [Bit e_reg 0, Bit e_reg 1], [])]"]
        exI[of _ "[h_item]"] exI[of _ "[cz_item]"]) simp
  then show ?thesis
    using decompose_order_preserved[where circ = cx_circ and pre = "[epr_item]" and op = h_item
        and post = "[cz_item]" and gates = default_gates] by simp
qed

section \<open>Expansion: what survives\<close>

lemma keeps_Inl [simp]: "keeps P (Inl e)"
  by (simp add: keeps_def)

lemma keeps_Inr [simp]: "keeps P (Inr c) = P c"
  by (simp add: keeps_def)

lemma keeps_and_then_circ:
  fixes m :: "error + circuit"
  assumes "keeps P m" and "\<And>c. P c \<Longrightarrow> keeps P (f c)"
  shows "keeps P (and_then m f)"
  using assms by (cases m) simp_all

lemma keeps_and_then_arg:
  fixes m :: "error + arg"
  assumes "\<And>v. keeps P (f v)"
  shows "keeps P (and_then m f)"
  using assms by (cases m) simp_all

lemma keeps_append_instr:
  assumes "prim_only c" and "name ins \<in> primitive_names"
  shows "keeps prim_only (append_instr c ins qs cs)"
  using assms
  by (cases "as_bits qs"; cases "as_bits cs")
     (simp_all add: append_instr_def append_bits_def prim_only_def)

lemma keeps_gates:
  assumes "prim_only c"
  shows "keeps prim_only (h_gate c a)" "keeps prim_only (x_gate c a)" "keeps prim_only (z_gate c a)"
    "keeps prim_only (cnot c a b)" "keeps prim_only (swap_gate c a b)"
    "keeps prim_only (measure_gate c a b)" "keeps prim_only (rz c p a)"
  using assms
  by (auto simp add: h_gate_def x_gate_def z_gate_def cnot_def swap_gate_def measure_gate_def
      rz_def gate_def primitive_names_def intro!: keeps_append_instr split: arg.splits)

lemma keeps_c_if:
  assumes "prim_only c"
  shows "keeps prim_only (c_if c a v)"
proof (cases "data c" rule: rev_cases)
  case Nil
  then show ?thesis by (simp add: c_if_def split: arg.splits)
next
  case (snoc ys y)
  then show ?thesis using assms
    by (cases y) (simp add: c_if_def prim_only_def split: arg.splits)
qed

lemmas keeps_intros = keeps_and_then_circ keeps_and_then_arg keeps_gates keeps_c_if

lemma keeps_setAncilla: "prim_only c \<Longrightarrow> keeps prim_only (setAncilla c a1 a2 a3)"
  unfolding setAncilla_def by (intro keeps_intros; assumption)

lemma keeps_buildRemoteCX: "prim_only c \<Longrightarrow> keeps prim_only (buildRemoteCX c a1 a2 a3 a4 a5)"
  unfolding buildRemoteCX_def by (intro keeps_intros; assumption)

lemma keeps_buildTeleportation:
  "prim_only c \<Longrightarrow> keeps prim_only (buildTeleportation c a1 a2 a3 a4 a5)"
  unfolding buildTeleportation_def by (intro keeps_intros; assumption)

lemma keeps_buildRemoteZZ:
  "prim_only c \<Longrightarrow> keeps prim_only (buildRemoteZZ c a0 a1 a2 a3 a4 a5)"
  unfolding buildRemoteZZ_def by (intro keeps_intros; assumption)

lemma keeps_buildRemoteCRZ:
  "prim_only c \<Longrightarrow> keeps prim_only (buildRemoteCRZ c a0 a1 a2 a3 a4 a5)"
  unfolding buildRemoteCRZ_def by (intro keeps_intros; assumption)

lemma keeps_calls:
  assumes "prim_only c"
  shows "keeps prim_only (call_setAncilla c args)"
    "keeps prim_only (call_buildRemoteCX c args)"
    "keeps prim_only (call_buildTeleportation c args)"
    "keeps prim_only (call_buildRemoteZZ c args)"
    "keeps prim_only (call_buildRemoteCRZ c args)"
proof -
  show "keeps prim_only (call_setAncilla c args)"
    using assms by (cases "(c, args)" rule: call_setAncilla.cases) (simp_all add: keeps_setAncilla)
  show "keeps prim_only (call_buildRemoteCX c args)"
    using assms by (cases "(c, args)" rule: call_buildRemoteCX.cases) (simp_all add: keeps_buildRemoteCX)
  show "keeps prim_only (call_buildTeleportation c args)"
    using assms by (cases "(c, args)" rule: call_buildTeleportation.cases)
      (simp_all add: keeps_buildTeleportation)
  show "keeps prim_only (call_buildRemoteZZ c args)"
    using assms by (cases "(c, args)" rule: call_buildRemoteZZ.cases) (simp_all add: keeps_buildRemoteZZ)
  show "keeps prim_only (call_buildRemoteCRZ c args)"
    using assms by (cases "(c, args)" rule: call_buildRemoteCRZ.cases) (simp_all add: keeps_buildRemoteCRZ)
qed

lemma keeps_build_op: "prim_only c \<Longrightarrow> keeps prim_only (build_op c op)"
  by (simp add: build_op_def Let_def keeps_calls)

lemma prim_only_empty [simp]: "prim_only (circ\<lparr>data := []\<rparr>)"
  by (simp add: prim_only_def)

lemma expand_op_names:
  assumes "expand_op (circ\<lparr>data := []\<rparr>) gates op = Inr xs"
    and "set gates \<inter> primitive_names = {}"
  shows "list_all (\<lambda>it. name (fst it) \<notin> set gates) xs"
proof (cases "name (fst op) \<in> set gates")
  case False
  then show ?thesis using assms by (auto simp add: expand_op_def)
next
  case True
  then obtain t where t: "build_op (circ\<lparr>data := []\<rparr>) op = Inr t" and xs: "xs = data t"
    using assms(1) by (auto simp add: expand_op_def split: sum.splits)
  have "prim_only t"
    using keeps_build_op[of "circ\<lparr>data := []\<rparr>" op] t by simp
  then show ?thesis using assms(2) xs
    by (auto simp add: prim_only_def list_all_iff)
qed

lemma concat_results_names:
  assumes "concat_results (expand_op (circ\<lparr>data := []\<rparr>) gates) ops = Inr ys"
    and "set gates \<inter> primitive_names = {}"
  shows "list_all (\<lambda>it. name (fst it) \<notin> set gates) ys"
  using assms
proof (induction ops arbitrary: ys)
  case Nil
  then show ?case by simp
next
  case (Cons op ops)
  then show ?case
    by (auto simp add: expand_op_names split: sum.splits)
qed

lemma decompose_cx_circ:
  assumes "''RemoteCX'' \<in> set gates"
  shows "decompose cx_circ gates = Inr (cx_circ\<lparr>data := remote_cx_out\<rparr>)"
proof -
  have d: "data cx_circ = [(gate ''RemoteCX'' 4 2 [],
              [Bit q_reg 0, Bit q_reg 1, Bit e_reg 0, Bit e_reg 1], [Bit c_reg 0, Bit c_reg 1])]"
    by (simp add: cx_circ_def)
  have n: "name (gate ''RemoteCX'' 4 2 []) = ''RemoteCX''" "params (gate ''RemoteCX'' 4 2 []) = []"
    by (simp_all add: gate_def)
  have ne: "Bit q_reg 0 \<noteq> Bit e_reg 0" "Bit e_reg 1 \<noteq> Bit q_reg 1"
    by (simp_all add: q_reg_def e_reg_def)
  show ?thesis
    using assms n build_op_RemoteCX[OF n valid_cx_circ(1-4) ne valid_cx_circ(5,6)]
    by (simp add: decompose_expand expand_op_def d remote_cx_out_def)
qed

text \<open>
  C4, as stated, fails: with \<open>gates = [RemoteCX, cx]\<close> the expansion of the
  RemoteCX instruction emits CNOT instructions, whose kind \<open>cx\<close> is in \<open>gates\<close>,
  and the single pass does not look at them again.
\<close>

theorem decompose_residual_cx:
  "decompose cx_circ [''RemoteCX'', ''cx''] = Inr (cx_circ\<lparr>data := remote_cx_out\<rparr>)
   \<and> (gate ''cx'' 2 0 [], [Bit q_reg 0, Bit e_reg 0], []) \<in> set remote_cx_out
   \<and> name (gate ''cx'' 2 0 []) \<in> set [''RemoteCX'', ''cx'']"
  by (simp add: decompose_cx_circ) (simp add: remote_cx_out_def gate_def)

text \<open>
  C4, amended. When \<open>gates\<close> contains none of the primitive kind names that the
  builders emit (h, cx, rz, measure, x, z, swap) and \<open>decompose\<close> returns, its output
  contains no instruction whose kind is in \<open>gates\<close>.
\<close>

theorem decompose_no_residual:
  assumes "decompose circ gates = Inr circ'"
    and "set gates \<inter> primitive_names = {}"
  shows "list_all (\<lambda>it. name (fst it) \<notin> set gates) (data circ')"
  using assms concat_results_names[of circ gates "data circ"]
  by (auto simp add: decompose_expand split: sum.splits)

theorem decompose_no_residual_witness:
  "list_all (\<lambda>it. name (fst it) \<notin> set default_gates) remote_cx_out"
proof -
  have g: "''RemoteCX'' \<in> set default_gates" by (simp add: default_gates_def)
  have d: "set default_gates \<inter> primitive_names = {}"
    by (simp add: default_gates_def primitive_names_def)
  from decompose_no_residual[OF decompose_cx_circ[OF g] d] show ?thesis by simp
qed

section \<open>Macro insertion\<close>

lemma add_register_data: "add_register c r = Inr c' \<Longrightarrow> data c' = data c"
  by (auto simp add: add_register_def split: if_splits)

lemma get_cregs_data: "get_cregs c r = Inr (c', x, b) \<Longrightarrow> data c' = data c"
  by (auto simp add: get_cregs_def Let_def and_then_eq_Inr add_register_data split: if_splits)

lemma get_qregs_data: "get_qregs c r = Inr (c', x, b) \<Longrightarrow> data c' = data c"
  by (auto simp add: get_qregs_def Let_def and_then_eq_Inr add_register_data split: if_splits)

lemma get_qregs_RReg:
  "get_qregs c r = Inr (c', RReg qr, b) \<Longrightarrow> kind qr = QReg \<Longrightarrow> qr \<in> set (qregs c')"
  by (auto simp add: get_qregs_def Let_def and_then_eq_Inr add_register_def has_register_def
      split: if_splits pyref.splits)

lemma ref_iter_two:
  "rsize qr = 2 \<Longrightarrow> ref_iter (RReg qr) = [ABit (Bit qr 0), ABit (Bit qr 1)]"
  by (simp add: ref_iter_def upt_rec numeral_2_eq_2)

lemma instrSet_GenEPR: "dict_getitem (instrSet ps) ''GenEPR'' = Inr (gate ''GenEPR'' 2 0 ps)"
  by (simp add: dict_getitem_def instrSet_def)

lemma instrSet_unknown: "nm \<notin> set default_gates \<Longrightarrow> dict_getitem (instrSet ps) nm = Inl KeyError"
  by (simp add: dict_getitem_def instrSet_def default_gates_def)

lemma get_regs_base:
  "get_cregs base_circ RNone = Inr (base_circ\<lparr>cregs := [c_reg]\<rparr>, RReg c_reg, True)"
  "get_qregs (base_circ\<lparr>cregs := [c_reg]\<rparr>) RNone =
     Inr (base_circ\<lparr>qregs := [q_reg, e_reg], cregs := [c_reg]\<rparr>, RReg e_reg, True)"
  by (simp_all add: get_cregs_def get_qregs_def add_register_def base_circ_def q_reg_def
      c_reg_def e_reg_def)

lemma addInstr_base_bogus:
  "addInstr base_circ ''Bogus'' (ABit (Bit q_reg 0)) (ABit (Bit q_reg 1)) [] RNone RNone =
     (base_circ\<lparr>qregs := [q_reg, e_reg], cregs := [c_reg],
                 data := [(gate ''GenEPR'' 2 0 [], [Bit e_reg 0, Bit e_reg 1], [])]\<rparr>,
      Some UndefinedInstruction)"
proof -
  have i: "ref_iter (RReg e_reg) = [ABit (Bit e_reg 0), ABit (Bit e_reg 1)]"
    by (simp add: ref_iter_two e_reg_def)
  have g: "ref_getitem (RReg e_reg) 0 = Inr (ABit (Bit e_reg 0))"
    "ref_getitem (RReg e_reg) 1 = Inr (ABit (Bit e_reg 1))"
    by (simp_all add: ref_getitem_def e_reg_def)
  have ap: "append_instr (base_circ\<lparr>qregs := [q_reg, e_reg], cregs := [c_reg]\<rparr>)
       (gate ''GenEPR'' 2 0 []) [ABit (Bit e_reg 0), ABit (Bit e_reg 1)] [] =
     Inr (base_circ\<lparr>qregs := [q_reg, e_reg], cregs := [c_reg],
                 data := [(gate ''GenEPR'' 2 0 [], [Bit e_reg 0, Bit e_reg 1], [])]\<rparr>)"
    by (simp add: append_instr_def append_bits_def valid_qubit_def gate_def base_circ_def e_reg_def)
  have k: "dict_getitem (instrSet []) ''Bogus'' = Inl KeyError"
    by (simp add: instrSet_unknown default_gates_def)
  show ?thesis
    unfolding addInstr_def
    by (simp add: get_regs_base g i instrSet_GenEPR ap k del: One_nat_def)
qed

text \<open>
  C1, as stated, fails: a call with the unknown name \<open>Bogus\<close> raises the error,
  and the instruction list has gained the GenEPR instruction.
\<close>

theorem addInstr_unknown_name_modifies:
  "snd (addInstr base_circ ''Bogus'' (ABit (Bit q_reg 0)) (ABit (Bit q_reg 1)) [] RNone RNone)
     = Some UndefinedInstruction
   \<and> data (fst (addInstr base_circ ''Bogus'' (ABit (Bit q_reg 0)) (ABit (Bit q_reg 1)) [] RNone RNone))
     = [(gate ''GenEPR'' 2 0 [], [Bit e_reg 0, Bit e_reg 1], [])]
   \<and> data (fst (addInstr base_circ ''Bogus'' (ABit (Bit q_reg 0)) (ABit (Bit q_reg 1)) [] RNone RNone))
     \<noteq> data base_circ"
  by (simp add: addInstr_base_bogus del: One_nat_def) (simp add: base_circ_def)

text \<open>
  C1, amended. When the entanglement registers resolve, the qubit register to a
  handle of a quantum register of two units, a call of \<open>addInstr\<close> with a name
  outside the table fails with the error for an undefined instruction after the
  GenEPR instruction over the resolved qubit register has been appended: the
  instruction list is the old one followed by that one GenEPR instruction, and no
  instruction of the unknown kind is appended.
\<close>

theorem addInstr_unknown_name:
  assumes "nm \<notin> set default_gates"
    and "get_cregs circ epr_creg = Inr (c1, creg, a)"
    and "get_qregs c1 epr_qreg = Inr (c2, RReg qr, b)"
    and "kind qr = QReg" and "rsize qr = 2"
  shows "addInstr circ nm qb1 qb2 ps epr_creg epr_qreg =
           (c2\<lparr>data := data circ @ [(gate ''GenEPR'' 2 0 ps, [Bit qr 0, Bit qr 1], [])]\<rparr>,
            Some UndefinedInstruction)"
proof -
  have d: "data c2 = data circ"
    using assms(2,3) get_cregs_data get_qregs_data by simp
  have v: "valid_qubit c2 (Bit qr 0)" "valid_qubit c2 (Bit qr 1)"
    using get_qregs_RReg[OF assms(3,4)] assms(4,5) by (simp_all add: valid_qubit_def)
  have g: "nm \<noteq> ''GenEPR''" using assms(1) by (auto simp add: default_gates_def)
  have ap: "append_instr c2 (gate ''GenEPR'' 2 0 ps) (ref_iter (RReg qr)) [] =
      Inr (c2\<lparr>data := data circ @ [(gate ''GenEPR'' 2 0 ps, [Bit qr 0, Bit qr 1], [])]\<rparr>)"
    using v d assms(5) by (simp add: ref_iter_two append_instr_def append_bits_def gate_def)
  show ?thesis
    using assms(2,3,5) g
    by (simp add: addInstr_def ref_getitem_def instrSet_GenEPR ap instrSet_unknown[OF assms(1)])
qed

theorem addInstr_unknown_name_witness:
  "addInstr base_circ ''Bogus'' (ABit (Bit q_reg 0)) (ABit (Bit q_reg 1)) [] RNone RNone =
     (base_circ\<lparr>qregs := [q_reg, e_reg], cregs := [c_reg],
                 data := [(gate ''GenEPR'' 2 0 [], [Bit e_reg 0, Bit e_reg 1], [])]\<rparr>,
      Some UndefinedInstruction)"
proof -
  have n: "''Bogus'' \<notin> set default_gates" by (simp add: default_gates_def)
  have k: "kind e_reg = QReg" "rsize e_reg = 2" by (simp_all add: e_reg_def)
  from addInstr_unknown_name[OF n get_regs_base k]
  show ?thesis by (simp add: base_circ_def)
qed

text \<open>
  C10. On a circuit that holds the two entanglement registers of two units, a call
  of \<open>addInstr\<close> that names them by their name strings raises an error and leaves
  the circuit as it was: the registry returns the strings, so the subscriptions
  yield characters (or fail, for a name shorter than two characters) and the append
  of GenEPR refuses them.
\<close>

theorem addInstr_register_names:
  assumes "Register CReg 2 cn \<in> set (cregs circ)" and "Register QReg 2 qn \<in> set (qregs circ)"
  shows "addInstr circ nm qb1 qb2 ps (RName cn) (RName qn) =
           (circ, Some (if length qn < 2 then IndexError else CircuitError))"
proof -
  have c: "get_cregs circ (RName cn) = Inr (circ, RName cn, False)"
    using assms(1) by (simp add: get_cregs_def has_register_def)
  have q: "get_qregs circ (RName qn) = Inr (circ, RName qn, False)"
    using assms(2) by (simp add: get_qregs_def has_register_def)
  have g0: "ref_getitem (RName qn) 0 = (if qn = [] then Inl IndexError else Inr (AStr [qn ! 0]))"
    by (simp add: ref_getitem_def)
  have g1: "ref_getitem (RName qn) 1 = (if length qn < 2 then Inl IndexError else Inr (AStr [qn ! 1]))"
    by (auto simp add: ref_getitem_def)
  have ap: "qn \<noteq> [] \<Longrightarrow> append_instr circ g (ref_iter (RName qn)) [] = Inl CircuitError" for g
    by (cases qn) (simp_all add: ref_iter_def append_instr_def)
  have e: "length qn < 2 \<Longrightarrow> qn \<noteq> [] \<Longrightarrow> length qn = 1"
    by (cases qn) simp_all
  have step: "addInstr circ nm qb1 qb2 ps (RName cn) (RName qn) =
      try_in circ (ref_getitem (RName qn) 0) (\<lambda>q0.
      try_in circ (ref_getitem (RName qn) 1) (\<lambda>q1.
      try_in circ (append_instr circ (gate ''GenEPR'' 2 0 ps) (ref_iter (RName qn)) [])
        (\<lambda>c. if nm \<noteq> ''GenEPR'' then
               (case and_then (dict_getitem (instrSet ps) nm) (\<lambda>ins.
                       append_instr c ins [qb1, qb2, q0, q1] (ref_iter (RName cn))) of
                  Inl e \<Rightarrow> (c, Some UndefinedInstruction)
                | Inr c' \<Rightarrow> (c', None))
             else (c, None))))"
    unfolding addInstr_def by (simp add: c q instrSet_GenEPR del: One_nat_def)
  show ?thesis
  proof (cases "qn = []")
    case True
    then show ?thesis unfolding step by (simp add: ref_getitem_def del: One_nat_def)
  next
    case False
    then show ?thesis unfolding step g0 g1 by (simp add: ap del: One_nat_def)
  qed
qed

theorem addInstr_register_names_witness:
  "addInstr cx_circ ''RemoteCX'' (ABit (Bit q_reg 0)) (ABit (Bit q_reg 1)) []
      (RName ''c_epr'') (RName ''q_epr'') = (cx_circ, Some CircuitError)"
proof -
  have a: "Register CReg 2 ''c_epr'' \<in> set (cregs cx_circ)"
    by (simp add: cx_circ_def c_reg_def)
  have b: "Register QReg 2 ''q_epr'' \<in> set (qregs cx_circ)"
    by (simp add: cx_circ_def e_reg_def)
  from addInstr_register_names[OF a b] show ?thesis by simp
qed

text \<open>
  C7. For a name string the registry returns the name, not the register; for a
  handle it returns the handle. In both cases nothing is created.
\<close>

theorem get_regs_return_name:
  "get_cregs cx_circ (RName ''c_epr'') = Inr (cx_circ, RName ''c_epr'', False)
   \<and> get_qregs cx_circ (RName ''q_epr'') = Inr (cx_circ, RName ''q_epr'', False)
   \<and> get_cregs cx_circ (RReg c_reg) = Inr (cx_circ, RReg c_reg, False)
   \<and> get_qregs cx_circ (RReg e_reg) = Inr (cx_circ, RReg e_reg, False)"
  by (simp add: get_cregs_def get_qregs_def has_register_def cx_circ_def c_reg_def e_reg_def q_reg_def)

section \<open>The loop of autosubstitute\<close>

lemma autosubstitute_loop_replace:
  "data circ = pre @ rest \<Longrightarrow> s \<le> length pre \<Longrightarrow>
   finish circ (autosubstitute_loop circ reglist gates E creg qreg
                  (enumerate_from (length pre) rest) (chunks, s)) =
   (case concat_results (replace_op E reglist gates creg qreg) rest of
      Inl e \<Rightarrow> Inl e | Inr ys \<Rightarrow> Inr (chunks @ drop s pre @ ys))"
proof (induction rest arbitrary: pre s chunks)
  case Nil
  then show ?case by (simp add: enumerate_from_Nil finish_def)
next
  case (Cons op rest)
  have d: "data circ = (pre @ [op]) @ rest" using Cons.prems by simp
  let ?hit = "length (fst (snd op)) = 2 \<and> name (fst op) \<in> set gates \<and> substitute reglist op"
  show ?case
  proof (cases ?hit)
    case False
    have "s \<le> length (pre @ [op])" using Cons.prems by simp
    from Cons.IH[OF d this, of chunks] False Cons.prems show ?thesis
      by (auto simp add: enumerate_from_Cons replace_op_def split: sum.splits)
  next
    case True
    show ?thesis
    proof (cases "substitute_op E creg qreg op")
      case (Inl e)
      then show ?thesis using True by (simp add: enumerate_from_Cons replace_op_def finish_def)
    next
      case (Inr t)
      have "Suc (length pre) \<le> length (pre @ [op])" by simp
      from Cons.IH[OF d this, of "chunks @ slice (data circ) s (length pre) @ data t"]
      show ?thesis using True Inr Cons.prems
        by (simp add: enumerate_from_Cons replace_op_def slice_def split: sum.splits)
    qed
  qed
qed

lemma autosubstitute_loop_all:
  "try_in circ (autosubstitute_loop circ reglist gates (circ\<lparr>data := []\<rparr>) creg qreg
                      (enumerate_from 0 (data circ)) ([], 0))
         (\<lambda>(circuitChunks, idxStart).
            (circ\<lparr>data := circuitChunks @ drop idxStart (data circ)\<rparr>, None))
   = substitute_all circ reglist gates creg qreg"
  using autosubstitute_loop_replace[of circ "[]" "data circ" 0 reglist gates "circ\<lparr>data := []\<rparr>"
      creg qreg "[]"]
  by (simp add: finish_def substitute_all_def try_in_def split: sum.splits prod.splits)

lemma autosubstitute_expand:
  "autosubstitute circ reglist gates epr_qreg epr_creg =
     try_in circ (get_cregs circ epr_creg) (\<lambda>(c1, creg, _).
     try_in c1 (get_qregs c1 epr_qreg) (\<lambda>(c2, qreg, _).
       substitute_all c2 reglist gates creg qreg))"
  by (simp add: autosubstitute_def Let_def autosubstitute_loop_all)

section \<open>Determinism\<close>

lemma expand_op_set: "set gates = set gates' \<Longrightarrow> expand_op E gates = expand_op E gates'"
  by (simp add: expand_op_def fun_eq_iff)

lemma replace_op_set:
  "set gates = set gates' \<Longrightarrow> set A = set A' \<Longrightarrow> set B = set B' \<Longrightarrow>
   replace_op E (A, B) gates creg qreg = replace_op E (A', B') gates' creg qreg"
  by (simp add: replace_op_def substitute_def fun_eq_iff)

text \<open>
  C8. The passes are functions of their arguments, and they read the containers
  \<open>gates\<close> and the two partitions only through membership tests: two calls on the
  same circuit whose containers hold the same elements, in whatever order and
  multiplicity, give the same result, errors included.
\<close>

theorem passes_deterministic:
  assumes "set gates = set gates'" and "set A = set A'" and "set B = set B'"
  shows "decompose circ gates = decompose circ gates'
         \<and> autosubstitute circ (A, B) gates epr_qreg epr_creg
           = autosubstitute circ (A', B') gates' epr_qreg epr_creg"
  using assms
  by (simp add: decompose_expand autosubstitute_expand substitute_all_def
      expand_op_set[of gates gates'] replace_op_set[of gates gates' A A' B B'])

theorem passes_deterministic_witness:
  "decompose sub_circ [''GenEPR'', ''cx'', ''GenEPR''] = decompose sub_circ [''cx'', ''GenEPR'']
   \<and> autosubstitute sub_circ ([Bit q3_reg 0, Bit q3_reg 2], [Bit q3_reg 1])
        [''GenEPR'', ''cx'', ''GenEPR''] RNone RNone
     = autosubstitute sub_circ ([Bit q3_reg 2, Bit q3_reg 0, Bit q3_reg 2], [Bit q3_reg 1, Bit q3_reg 1])
        [''cx'', ''GenEPR''] RNone RNone"
proof -
  have g: "set [''GenEPR'', ''cx'', ''GenEPR''] = set [''cx'', ''GenEPR'']"
    by auto
  have a: "set [Bit q3_reg 0, Bit q3_reg 2] = set [Bit q3_reg 2, Bit q3_reg 0, Bit q3_reg 2]"
    by auto
  have b: "set [Bit q3_reg 1] = set [Bit q3_reg 1, Bit q3_reg 1]"
    by auto
  show ?thesis by (rule passes_deterministic[OF g a b])
qed

section \<open>Substitution\<close>

lemma get_regs_temp:
  "get_cregs sub_regs (RReg c_reg) = Inr (sub_regs, RReg c_reg, False)"
  "get_qregs sub_regs (RReg e_reg) = Inr (sub_regs, RReg e_reg, False)"
  by (simp_all add: get_cregs_def get_qregs_def has_register_def sub_regs_def c_reg_def e_reg_def)

lemma ref_iter_regs:
  "ref_iter (RReg e_reg) = [ABit (Bit e_reg 0), ABit (Bit e_reg 1)]"
  "ref_iter (RReg c_reg) = [ABit (Bit c_reg 0), ABit (Bit c_reg 1)]"
  "ref_getitem (RReg e_reg) 0 = Inr (ABit (Bit e_reg 0))"
  "ref_getitem (RReg e_reg) 1 = Inr (ABit (Bit e_reg 1))"
  by (simp_all add: ref_iter_def ref_getitem_def e_reg_def c_reg_def upt_rec numeral_2_eq_2)

lemma addInstr_temp:
  assumes "i < 3" and "j < 3" and "i \<noteq> j"
  shows "addInstr sub_regs ''RemoteCX'' (ABit (Bit q3_reg i)) (ABit (Bit q3_reg j)) []
           (RReg c_reg) (RReg e_reg) = (sub_regs\<lparr>data := remote_items i j\<rparr>, None)"
proof -
  have a: "append_instr sub_regs (gate ''GenEPR'' 2 0 []) [ABit (Bit e_reg 0), ABit (Bit e_reg 1)] []
      = Inr (sub_regs\<lparr>data := [(gate ''GenEPR'' 2 0 [], [Bit e_reg 0, Bit e_reg 1], [])]\<rparr>)"
    by (simp add: append_instr_def append_bits_def valid_qubit_def gate_def sub_regs_def e_reg_def)
  have b: "append_instr
      (sub_regs\<lparr>data := [(gate ''GenEPR'' 2 0 [], [Bit e_reg 0, Bit e_reg 1], [])]\<rparr>)
      (gate ''RemoteCX'' 4 2 [])
      [ABit (Bit q3_reg i), ABit (Bit q3_reg j), ABit (Bit e_reg 0), ABit (Bit e_reg 1)]
      [ABit (Bit c_reg 0), ABit (Bit c_reg 1)]
      = Inr (sub_regs\<lparr>data := remote_items i j\<rparr>)"
    using assms
    by (simp add: append_instr_def append_bits_def valid_qubit_def valid_clbit_def gate_def
        sub_regs_def e_reg_def c_reg_def q3_reg_def remote_items_def)
  have k: "dict_getitem (instrSet []) ''RemoteCX'' = Inr (gate ''RemoteCX'' 4 2 [])"
    by (simp add: dict_getitem_def instrSet_def)
  show ?thesis
    unfolding addInstr_def
    by (simp add: get_regs_temp ref_iter_regs instrSet_GenEPR a b k del: One_nat_def)
qed

lemma get_regs_mix:
  "get_cregs mix_circ RNone = Inr (mix_circ\<lparr>cregs := [c_reg]\<rparr>, RReg c_reg, True)"
  "get_qregs (mix_circ\<lparr>cregs := [c_reg]\<rparr>) RNone =
     Inr (mix_circ\<lparr>qregs := [q3_reg, e_reg], cregs := [c_reg]\<rparr>, RReg e_reg, True)"
  by (simp_all add: get_cregs_def get_qregs_def add_register_def mix_circ_def q3_reg_def
      c_reg_def e_reg_def)

lemma sub_regs_data: "data sub_regs = []"
  by (simp add: sub_regs_def)

lemma replace_ops_mix:
  "replace_op sub_regs ([Bit q3_reg 0, Bit q3_reg 2], [Bit q3_reg 1]) [''cx'', ''cz'']
     (RReg c_reg) (RReg e_reg) (cx_item 0 1) = Inr (remote_items 0 1)"
  "replace_op sub_regs ([Bit q3_reg 0, Bit q3_reg 2], [Bit q3_reg 1]) [''cx'', ''cz'']
     (RReg c_reg) (RReg e_reg) cz3_item = Inr []"
  "replace_op sub_regs ([Bit q3_reg 0, Bit q3_reg 2], [Bit q3_reg 1]) [''cx'', ''cz'']
     (RReg c_reg) (RReg e_reg) (cx_item 0 2) = Inr [cx_item 0 2]"
  by (simp_all add: replace_op_def substitute_def substitute_op_def cx_item_def cz3_item_def
      gate_def addInstr_temp[unfolded gate_def] sub_regs_data)

text \<open>
  C6. The code at a failing input: partitions \<open>A = {q0, q2}\<close> and \<open>B = {q1}\<close>,
  kinds \<open>cx\<close> and \<open>cz\<close> targeted, and the instructions CNOT(q0, q1),
  CZ(q1, q0), CNOT(q0, q2). The straddling CNOT is replaced, in place, by GenEPR and
  RemoteCX(q0, q1, e0, e1; c0, c1), and the CNOT with both operands in \<open>A\<close> passes
  through unchanged; the straddling controlled-Z, also of a targeted kind, is not
  replaced by anything: it is missing from the output.
\<close>

theorem autosubstitute_partition_cz:
  "autosubstitute mix_circ ([Bit q3_reg 0, Bit q3_reg 2], [Bit q3_reg 1]) [''cx'', ''cz'']
      RNone RNone =
     (sub_regs\<lparr>data := remote_items 0 1 @ [cx_item 0 2]\<rparr>, None)"
proof -
  have d: "data mix_circ = [cx_item 0 1, cz3_item, cx_item 0 2]"
    by (simp add: mix_circ_def)
  have e: "mix_circ\<lparr>qregs := [q3_reg, e_reg], cregs := [c_reg], data := xs\<rparr> = sub_regs\<lparr>data := xs\<rparr>"
    for xs by (simp add: mix_circ_def sub_regs_def)
  have e0: "mix_circ\<lparr>qregs := [q3_reg, e_reg], cregs := [c_reg], data := []\<rparr> = sub_regs"
    by (simp add: mix_circ_def sub_regs_def)
  show ?thesis
    by (simp add: autosubstitute_expand get_regs_mix substitute_all_def d e0 replace_ops_mix e
        del: One_nat_def)
qed

lemma get_regs_cz:
  "get_cregs cz_circ RNone = Inr (cz_circ\<lparr>cregs := [c_reg]\<rparr>, RReg c_reg, True)"
  "get_qregs (cz_circ\<lparr>cregs := [c_reg]\<rparr>) RNone =
     Inr (cz_circ\<lparr>qregs := [q_reg, e_reg], cregs := [c_reg]\<rparr>, RReg e_reg, True)"
  by (simp_all add: get_cregs_def get_qregs_def add_register_def cz_circ_def q_reg_def
      c_reg_def e_reg_def)

text \<open>
  C2. The code at the failing input: a controlled-Z whose operands straddle the
  partitions, with \<open>cz\<close> targeted. The call returns without error and the
  instruction is gone from the output.
\<close>

theorem autosubstitute_drops_unmapped:
  "autosubstitute cz_circ ([Bit q_reg 0], [Bit q_reg 1]) [''cz''] RNone RNone =
     (\<lparr>qregs = [q_reg, e_reg], cregs = [c_reg], data = []\<rparr>, None)"
proof -
  have r: "replace_op E ([Bit q_reg 0], [Bit q_reg 1]) [''cz''] (RReg c_reg) (RReg e_reg) cz_item
      = Inr (data E)" for E
    by (simp add: replace_op_def substitute_def substitute_op_def cz_item_def gate_def)
  have d: "data cz_circ = [cz_item]" by (simp add: cz_circ_def)
  show ?thesis
    by (simp add: autosubstitute_expand get_regs_cz substitute_all_def d r del: One_nat_def)
qed

end
